theory Spec2Isabelle
  imports Main
begin

section \<open>Values of the JavaScript runtime\<close>

text \<open>
  The server (\<^verbatim>\<open>src/index.ts\<close>) works on two kinds of dynamic data: the raw arguments of a
  tool call and the body of the CoinGecko response, both results of \<^verbatim>\<open>JSON.parse\<close>. A
  parsed object is the list of its own entries, with distinct keys. A number is kept as
  the token the JSON text wrote it with (\<^verbatim>\<open>65000.10\<close>, \<^verbatim>\<open>1e21\<close>): \<^verbatim>\<open>JSON.parse\<close> turns the
  token into a double, and the model makes this conversion where the number is used.
\<close>

datatype json =
    JNull
  | JBool bool
  | JNum string
  | JStr string
  | JArr "json list"
  | JObj "(string \<times> json) list"

text \<open>
  A property read can also yield \<^verbatim>\<open>undefined\<close>, or an object of the runtime itself:
  \<^verbatim>\<open>Object.prototype\<close>, or a built-in function, known by its \<^verbatim>\<open>name\<close>.
\<close>

datatype builtin =
    ObjectPrototype
  | BuiltinFunction string

datatype jsval =
    Undefined
  | Data json
  | Builtin builtin

text \<open>The issues a zod schema reports: the path of the offending field and what was wrong.\<close>

datatype ZodIssue =
    invalid_type "string list" string string
  | too_small "string list" nat

text \<open>
  What the program takes from the language runtime and from its libraries, where the model
  does not compute it:
  \<^item> \<open>number_to_boolean\<close>, \<open>number_to_string\<close>: the conversions of a number in
    \<^verbatim>\<open>!price\<close> and in a template literal, for a token outside the plain numbers defined
    below (more than 15 significant digits, or a magnitude near the limits of a double);
  \<^item> \<open>object_to_string\<close>: the conversion of an array, an object or a built-in in a template
    literal, which may throw (\<open>Inl\<close> carries the message of the error);
  \<^item> \<open>get_other\<close>: a property read on a string, a number, a boolean, an array or a
    built-in function; it may throw;
  \<^item> \<open>upper_case_other\<close>: \<^verbatim>\<open>toUpperCase\<close> of a string that is not pure ASCII;
  \<^item> \<open>nullish_read_message\<close>: the message of the TypeError thrown by a property read on
    \<^verbatim>\<open>null\<close> or \<^verbatim>\<open>undefined\<close>;
  \<^item> \<open>zod_message\<close>: the \<^verbatim>\<open>message\<close> of the ZodError thrown for a list of issues.
\<close>

record Runtime =
  number_to_boolean :: "string \<Rightarrow> bool"
  number_to_string :: "string \<Rightarrow> string"
  object_to_string :: "jsval \<Rightarrow> string + string"
  get_other :: "jsval \<Rightarrow> string \<Rightarrow> string + jsval"
  upper_case_other :: "string \<Rightarrow> string"
  nullish_read_message :: "jsval \<Rightarrow> string \<Rightarrow> string"
  zod_message :: "ZodIssue list \<Rightarrow> string"

subsection \<open>Numbers\<close>

text \<open>The decimal digits of a natural number.\<close>

function show_nat :: "nat \<Rightarrow> string" where
  "show_nat n =
     (if n < 10 then [''0123456789'' ! n]
      else show_nat (n div 10) @ [''0123456789'' ! (n mod 10)])"
  by pat_completeness auto
termination
  by (relation "measure id") auto

declare show_nat.simps [simp del]

definition is_digit :: "char \<Rightarrow> bool" where
  "is_digit c = (c \<in> set ''0123456789'')"

definition digit_value :: "char \<Rightarrow> nat" where
  "digit_value c =
     (case map_of (zip ''0123456789'' [0, 1, 2, 3, 4, 5, 6, 7, 8, 9]) c of
        Some d \<Rightarrow> d
      | None \<Rightarrow> 0)"

definition nat_of_digits :: "string \<Rightarrow> nat" where
  "nat_of_digits ds = foldl (\<lambda>a c. 10 * a + digit_value c) 0 ds"

text \<open>
  The value of a number token: \<open>Decimal neg s n\<close> is \<open>0.s \<times> 10\<^sup>n\<close>, negated when \<open>neg\<close>,
  where the digits \<open>s\<close> neither start nor end with a zero; zero has no digits.
\<close>

datatype decimal = Decimal (negative: bool) (digits: string) (point: int)

text \<open>The exponent part of a token: nothing, or \<^verbatim>\<open>e\<close> or \<^verbatim>\<open>E\<close>, a sign or none, and digits.\<close>

definition exponent_part :: "string \<Rightarrow> int option" where
  "exponent_part r =
     (if r = [] then Some 0
      else if hd r = CHR ''e'' \<or> hd r = CHR ''E'' then
        (let minus = (tl r \<noteq> [] \<and> hd (tl r) = CHR ''-'');
             plus = (tl r \<noteq> [] \<and> hd (tl r) = CHR ''+'');
             ds = (if minus \<or> plus then tl (tl r) else tl r)
         in if ds = [] \<or> \<not> list_all is_digit ds then None
            else Some (if minus then - int (nat_of_digits ds) else int (nat_of_digits ds)))
      else None)"

text \<open>
  A token of the JSON grammar (a minus sign or none, an integer part without a leading
  zero, a fraction or none, an exponent or none) and the decimal it denotes; \<open>None\<close> for
  any other string, which no parsed body holds.
\<close>

definition parse_number :: "string \<Rightarrow> decimal option" where
  "parse_number t =
     (let minus = (t \<noteq> [] \<and> hd t = CHR ''-'');
          r1 = (if minus then tl t else t);
          ip = takeWhile is_digit r1;
          r2 = dropWhile is_digit r1;
          dot = (r2 \<noteq> [] \<and> hd r2 = CHR ''.'');
          fp = (if dot then takeWhile is_digit (tl r2) else []);
          r3 = (if dot then dropWhile is_digit (tl r2) else r2)
      in if ip = [] \<or> (1 < length ip \<and> hd ip = CHR ''0'') \<or> (dot \<and> fp = []) then None
         else (case exponent_part r3 of
                 None \<Rightarrow> None
               | Some e \<Rightarrow>
                   (let sig = dropWhile (\<lambda>c. c = CHR ''0'') (ip @ fp);
                        s = rev (dropWhile (\<lambda>c. c = CHR ''0'') (rev sig))
                    in Some (Decimal minus s
                         (int (length ip) + e - int (length (ip @ fp) - length sig))))))"

text \<open>The token denotes zero: the double is \<open>+0\<close> or \<open>-0\<close>.\<close>

definition zero_number :: "string \<Rightarrow> bool" where
  "zero_number t = (case parse_number t of None \<Rightarrow> False | Some d \<Rightarrow> digits d = [])"

text \<open>
  A plain number: not zero, at most 15 significant digits, and a magnitude from
  \<open>10\<^sup>-\<^sup>3\<^sup>0\<^sup>1\<close> up to \<open>10\<^sup>3\<^sup>0\<^sup>0\<close>. The double nearest to such a decimal is a normal one,
  and no other decimal of 15 digits or fewer has the same nearest double, so the shortest
  digits that identify the double, which JavaScript prints, are the digits of the decimal.
\<close>

definition plain_number :: "string \<Rightarrow> bool" where
  "plain_number t =
     (case parse_number t of
        None \<Rightarrow> False
      | Some d \<Rightarrow>
          digits d \<noteq> [] \<and> length (digits d) \<le> 15 \<and> - 300 \<le> point d \<and> point d \<le> 300)"

text \<open>
  \<^verbatim>\<open>Number.prototype.toString\<close> in base 10, from the digits \<open>s\<close>, their number \<open>k\<close> and the
  position \<open>n\<close> of the point: the digits and zeros after them when \<open>k \<le> n \<le> 21\<close>, a point
  inside the digits when \<open>0 < n \<le> 21\<close>, zeros between the point and the digits when
  \<open>-6 < n \<le> 0\<close>, and the exponent notation with \<open>n - 1\<close> otherwise.
\<close>

definition Number_format :: "decimal \<Rightarrow> string" where
  "Number_format d =
     (let s = digits d; k = int (length s); n = point d
      in if s = [] then ''0''
         else (if negative d then ''-'' else []) @
           (if k \<le> n \<and> n \<le> 21 then s @ replicate (nat (n - k)) (CHR ''0'')
            else if 0 < n \<and> n \<le> 21 then take (nat n) s @ ''.'' @ drop (nat n) s
            else if - 6 < n \<and> n \<le> 0 then ''0.'' @ replicate (nat (- n)) (CHR ''0'') @ s
            else (if k = 1 then s else take 1 s @ ''.'' @ drop 1 s) @ ''e'' @
                 (if n - 1 < 0 then ''-'' else ''+'') @ show_nat (nat \<bar>n - 1\<bar>)))"

text \<open>The string JavaScript prints for a number that is zero or plain.\<close>

definition printed :: "string \<Rightarrow> string" where
  "printed t = (case parse_number t of None \<Rightarrow> [] | Some d \<Rightarrow> Number_format d)"

text \<open>
  \<^verbatim>\<open>!price\<close> for a number: zero is falsy; a number that is not zero and whose magnitude is
  far from the smallest double is truthy.
\<close>

definition Number_toBoolean :: "Runtime \<Rightarrow> string \<Rightarrow> bool" where
  "Number_toBoolean rt t =
     (case parse_number t of
        None \<Rightarrow> number_to_boolean rt t
      | Some d \<Rightarrow>
          if digits d = [] then False
          else if - 300 \<le> point d \<and> point d \<le> 300 then True
          else number_to_boolean rt t)"

definition Number_toString :: "Runtime \<Rightarrow> string \<Rightarrow> string" where
  "Number_toString rt t =
     (if zero_number t \<or> plain_number t then printed t else number_to_string rt t)"

subsection \<open>Conversions and property reads\<close>

text \<open>\<^verbatim>\<open>!price\<close> is true exactly when \<open>ToBoolean\<close> is false.\<close>

fun ToBoolean :: "Runtime \<Rightarrow> jsval \<Rightarrow> bool" where
  "ToBoolean rt Undefined = False"
| "ToBoolean rt (Data JNull) = False"
| "ToBoolean rt (Data (JBool b)) = b"
| "ToBoolean rt (Data (JNum t)) = Number_toBoolean rt t"
| "ToBoolean rt (Data (JStr s)) = (s \<noteq> [])"
| "ToBoolean rt (Data (JArr xs)) = True"
| "ToBoolean rt (Data (JObj ps)) = True"
| "ToBoolean rt (Builtin b) = True"

text \<open>The string a template literal \<^verbatim>\<open>${v}\<close> inserts, or the message of the error thrown.\<close>

fun ToString :: "Runtime \<Rightarrow> jsval \<Rightarrow> string + string" where
  "ToString rt Undefined = Inr ''undefined''"
| "ToString rt (Data JNull) = Inr ''null''"
| "ToString rt (Data (JBool b)) = Inr (if b then ''true'' else ''false'')"
| "ToString rt (Data (JNum t)) = Inr (Number_toString rt t)"
| "ToString rt (Data (JStr s)) = Inr s"
| "ToString rt v = object_to_string rt v"

text \<open>
  The names of the properties of \<^verbatim>\<open>Object.prototype\<close>, which every parsed object inherits,
  and what a read of a name yields on an object that has no entry of its own for it:
  \<^verbatim>\<open>Object.prototype\<close> itself for \<^verbatim>\<open>__proto__\<close>, the function \<^verbatim>\<open>Object\<close> for
  \<^verbatim>\<open>constructor\<close>, the method of that name for the other ten, \<^verbatim>\<open>undefined\<close> for any other
  name.
\<close>

definition Object_prototype_names :: "string list" where
  "Object_prototype_names =
     [''constructor'', ''__defineGetter__'', ''__defineSetter__'', ''hasOwnProperty'',
      ''__lookupGetter__'', ''__lookupSetter__'', ''isPrototypeOf'', ''propertyIsEnumerable'',
      ''toString'', ''valueOf'', ''__proto__'', ''toLocaleString'']"

definition inherited :: "string \<Rightarrow> jsval" where
  "inherited k =
     (if k = ''__proto__'' then Builtin ObjectPrototype
      else if k = ''constructor'' then Builtin (BuiltinFunction ''Object'')
      else if k \<in> set Object_prototype_names then Builtin (BuiltinFunction k)
      else Undefined)"

text \<open>
  The property read \<^verbatim>\<open>v[k]\<close>. It throws on \<^verbatim>\<open>null\<close> and \<^verbatim>\<open>undefined\<close>. A parsed object
  answers with its own entry, or else with what it inherits. \<^verbatim>\<open>Object.prototype\<close> answers
  with its own properties, and its \<^verbatim>\<open>__proto__\<close> is \<^verbatim>\<open>null\<close>. The \<^verbatim>\<open>name\<close> of a built-in
  function is its name.
\<close>

fun get :: "Runtime \<Rightarrow> jsval \<Rightarrow> string \<Rightarrow> string + jsval" where
  "get rt Undefined k = Inl (nullish_read_message rt Undefined k)"
| "get rt (Data JNull) k = Inl (nullish_read_message rt (Data JNull) k)"
| "get rt (Data (JObj ps)) k =
     (case map_of ps k of
        Some x \<Rightarrow> Inr (Data x)
      | None \<Rightarrow> Inr (inherited k))"
| "get rt (Builtin ObjectPrototype) k =
     Inr (if k = ''__proto__'' then Data JNull else inherited k)"
| "get rt (Builtin (BuiltinFunction f)) k =
     (if k = ''name'' then Inr (Data (JStr f))
      else get_other rt (Builtin (BuiltinFunction f)) k)"
| "get rt v k = get_other rt v k"

text \<open>The optional read \<^verbatim>\<open>v?.[k]\<close>: \<^verbatim>\<open>undefined\<close> when \<open>v\<close> is null or undefined.\<close>

definition optional_get :: "Runtime \<Rightarrow> jsval \<Rightarrow> string \<Rightarrow> string + jsval" where
  "optional_get rt v k =
     (if v = Undefined \<or> v = Data JNull then Inr Undefined else get rt v k)"

text \<open>
  \<^verbatim>\<open>String.prototype.toUpperCase\<close>. On a string of ASCII characters the letters a to z move
  to A to Z and every other character stays. A character outside ASCII stands in a string
  of the model as bytes with the high bit set, and what a string with such a character
  becomes (a sharp s becomes \<^verbatim>\<open>SS\<close>) is the runtime's.
\<close>

definition is_ascii :: "char \<Rightarrow> bool" where
  "is_ascii c = (\<not> digit7 c)"

definition upper_char :: "char \<Rightarrow> char" where
  "upper_char c =
     (case map_of (zip ''abcdefghijklmnopqrstuvwxyz'' ''ABCDEFGHIJKLMNOPQRSTUVWXYZ'') c of
        Some u \<Rightarrow> u
      | None \<Rightarrow> c)"

definition toUpperCase :: "Runtime \<Rightarrow> string \<Rightarrow> string" where
  "toUpperCase rt s = (if list_all is_ascii s then map upper_char s else upper_case_other rt s)"

section \<open>Argument validation\<close>

text \<open>
  \<^verbatim>\<open>const PriceArgsSchema = z.object({
    coin: z.string().min(1),
    currency: z.string().optional().default("usd") });\<close>
  A value that may be \<^verbatim>\<open>undefined\<close> is a \<open>json option\<close>.
\<close>

record PriceArgs =
  coin :: string
  currency :: string

fun getParsedType :: "json option \<Rightarrow> string" where
  "getParsedType None = ''undefined''"
| "getParsedType (Some JNull) = ''null''"
| "getParsedType (Some (JBool b)) = ''boolean''"
| "getParsedType (Some (JNum n)) = ''number''"
| "getParsedType (Some (JStr s)) = ''string''"
| "getParsedType (Some (JArr xs)) = ''array''"
| "getParsedType (Some (JObj ps)) = ''object''"

text \<open>\<^verbatim>\<open>z.string().min(m)\<close> at a path; \<^verbatim>\<open>z.string()\<close> is the case \<open>m = 0\<close>.\<close>

fun z_string_min :: "nat \<Rightarrow> string list \<Rightarrow> json option \<Rightarrow> ZodIssue list + string" where
  "z_string_min m path (Some (JStr s)) =
     (if length s < m then Inl [too_small path m] else Inr s)"
| "z_string_min m path v = Inl [invalid_type path ''string'' (getParsedType v)]"

text \<open>
  \<^verbatim>\<open>z.string().optional().default("usd")\<close>: the default replaces an input that is
  \<^verbatim>\<open>undefined\<close>; any other input, \<^verbatim>\<open>null\<close> included, has to be a string.
\<close>

fun z_string_optional_default ::
  "string \<Rightarrow> string list \<Rightarrow> json option \<Rightarrow> ZodIssue list + string" where
  "z_string_optional_default d path None = Inr d"
| "z_string_optional_default d path (Some v) = z_string_min 0 path (Some v)"

fun issues_of :: "ZodIssue list + 'a \<Rightarrow> ZodIssue list" where
  "issues_of (Inl issues) = issues"
| "issues_of (Inr x) = []"

text \<open>
  \<^verbatim>\<open>PriceArgsSchema.parse(rawArgs)\<close>: \<open>Inl\<close> carries the issues of the ZodError thrown.
  The fields are checked in the order of the schema and all their issues are collected;
  keys the schema does not name are dropped.
\<close>

fun PriceArgsSchema_parse :: "json option \<Rightarrow> ZodIssue list + PriceArgs" where
  "PriceArgsSchema_parse (Some (JObj ps)) =
     (case (z_string_min 1 [''coin''] (map_of ps ''coin''),
            z_string_optional_default ''usd'' [''currency''] (map_of ps ''currency'')) of
        (Inr c, Inr cur) \<Rightarrow> Inr \<lparr>coin = c, currency = cur\<rparr>
      | (rc, rcur) \<Rightarrow> Inl (issues_of rc @ issues_of rcur))"
| "PriceArgsSchema_parse v = Inl [invalid_type [] ''object'' (getParsedType v)]"

section \<open>The outside world\<close>

text \<open>
  \<^verbatim>\<open>fetch(url)\<close> either throws or yields a response, whose \<^verbatim>\<open>json()\<close> either throws or
  yields the parsed body; \<open>Inl\<close> carries the message of the error. A call without options
  is an HTTP GET.
\<close>

datatype Response = Response (json: "string + json")

type_synonym Fetch = "string \<Rightarrow> string + Response"

record HttpRequest =
  verb :: string
  url :: string

section \<open>The two request handlers\<close>

text \<open>The result \<^verbatim>\<open>{ content: [ { type: "text", text: t } ] }\<close>.\<close>

definition text_result :: "string \<Rightarrow> json" where
  "text_result t = JObj [(''content'', JArr [JObj [(''type'', JStr ''text''), (''text'', JStr t)]])]"

text \<open>The handler registered for \<^verbatim>\<open>ListToolsRequestSchema\<close>; it ignores its request.\<close>

definition ListTools_handler :: "json" where
  "ListTools_handler =
     JObj [(''tools'', JArr [
       JObj [(''name'', JStr ''get-crypto-price''),
             (''description'', JStr ''Fetch current price of a cryptocurrency from CoinGecko''),
             (''inputSchema'', JObj [
                (''type'', JStr ''object''),
                (''properties'', JObj [
                   (''coin'', JObj [
                      (''type'', JStr ''string''),
                      (''description'', JStr ''CoinGecko coin ID (e.g., bitcoin, ethereum)'')]),
                   (''currency'', JObj [
                      (''type'', JStr ''string''),
                      (''description'',
                         JStr (''Fiat currency (e.g., usd, eur). Default is '' @ [CHR 0x27] @
                               ''usd'' @ [CHR 0x27] @ ''.''))])]),
                (''required'', JArr [JStr ''coin''])])]])]"

text \<open>The URL of the price request, \<^verbatim>\<open>`...?ids=${coin}&vs_currencies=${currency}`\<close>.\<close>

definition price_url :: "PriceArgs \<Rightarrow> string" where
  "price_url args =
     ''https://api.coingecko.com/api/v3/simple/price?ids='' @ coin args @
     ''&vs_currencies='' @ currency args"

text \<open>\<^verbatim>\<open>data[coin]?.[currency]\<close>\<close>

definition price_of :: "Runtime \<Rightarrow> json \<Rightarrow> string \<Rightarrow> string \<Rightarrow> string + jsval" where
  "price_of rt data c cur =
     (case get rt (Data data) c of
        Inl e \<Rightarrow> Inl e
      | Inr x \<Rightarrow> optional_get rt x cur)"

text \<open>
  The body of the \<^verbatim>\<open>try\<close> block once the response is parsed: \<open>Inl\<close> is the message of an
  error thrown, \<open>Inr\<close> the value returned.
\<close>

definition price_text :: "Runtime \<Rightarrow> PriceArgs \<Rightarrow> json \<Rightarrow> string + json" where
  "price_text rt args data =
     (case price_of rt data (coin args) (currency args) of
        Inl e \<Rightarrow> Inl e
      | Inr price \<Rightarrow>
          if \<not> ToBoolean rt price
          then Inr (text_result
                 (''Could not find price for '' @ coin args @ '' in '' @ currency args @ ''.''))
          else (case ToString rt price of
                  Inl e \<Rightarrow> Inl e
                | Inr p \<Rightarrow> Inr (text_result
                    (toUpperCase rt (coin args) @ '' = '' @ p @ '' '' @
                     toUpperCase rt (currency args)))))"

text \<open>
  The \<^verbatim>\<open>try\<close> block: the requests it has sent, and the message of the error thrown or the
  value returned.
\<close>

definition try_block ::
  "Runtime \<Rightarrow> Fetch \<Rightarrow> json option \<Rightarrow> HttpRequest list \<times> (string + json)" where
  "try_block rt fetch rawArgs =
     (case PriceArgsSchema_parse rawArgs of
        Inl issues \<Rightarrow> ([], Inl (zod_message rt issues))
      | Inr args \<Rightarrow>
          (let u = price_url args; sent = [\<lparr>verb = ''GET'', url = u\<rparr>] in
           case fetch u of
             Inl e \<Rightarrow> (sent, Inl e)
           | Inr res \<Rightarrow>
               (case json res of
                  Inl e \<Rightarrow> (sent, Inl e)
                | Inr data \<Rightarrow> (sent, price_text rt args data))))"

text \<open>
  The handler registered for \<^verbatim>\<open>CallToolRequestSchema\<close>, on \<^verbatim>\<open>request.params.name\<close> and
  \<^verbatim>\<open>request.params.arguments\<close>: the requests sent, and \<open>Inl\<close> with the message of the Error
  the handler throws or \<open>Inr\<close> with the result it returns.
\<close>

definition CallTool_handler ::
  "Runtime \<Rightarrow> Fetch \<Rightarrow> string \<Rightarrow> json option \<Rightarrow> HttpRequest list \<times> (string + json)" where
  "CallTool_handler rt fetch name rawArgs =
     (if name = ''get-crypto-price''
      then (case try_block rt fetch rawArgs of
              (sent, Inl message) \<Rightarrow> (sent, Inr (text_result (''Error: '' @ message)))
            | (sent, Inr result) \<Rightarrow> (sent, Inr result))
      else ([], Inl (''Unknown tool: '' @ name)))"

section \<open>Requests in sequence\<close>

text \<open>
  \<^verbatim>\<open>server.setRequestHandler\<close> registers one handler for each kind of request, and a
  request is answered by the handler of its kind. Neither handler reads or writes a
  variable that outlives the call, so a session is answered request by request, each one
  against the outside world of its moment.
\<close>

datatype Request =
    ListToolsRequest
  | CallToolRequest string "json option"

fun handle_request ::
  "Runtime \<Rightarrow> Fetch \<Rightarrow> Request \<Rightarrow> HttpRequest list \<times> (string + json)" where
  "handle_request rt fetch ListToolsRequest = ([], Inr ListTools_handler)"
| "handle_request rt fetch (CallToolRequest name rawArgs) = CallTool_handler rt fetch name rawArgs"

definition serve ::
  "Runtime \<Rightarrow> (Fetch \<times> Request) list \<Rightarrow> (HttpRequest list \<times> (string + json)) list" where
  "serve rt session = map (\<lambda>(fetch, request). handle_request rt fetch request) session"

section \<open>The tool descriptor of the specification\<close>

text \<open>
  The descriptor as section 6 of the specification words it, to be compared with the one
  the handler returns.
\<close>

definition spec_tool_descriptor :: "json" where
  "spec_tool_descriptor =
     JObj [(''name'', JStr ''get-crypto-price''),
           (''description'', JStr ''Fetch current price of a cryptocurrency from CoinGecko''),
           (''inputSchema'', JObj [
              (''type'', JStr ''object''),
              (''properties'', JObj [
                 (''coin'', JObj [
                    (''type'', JStr ''string''),
                    (''description'', JStr ''coin identifier, e.g. bitcoin, ethereum'')]),
                 (''currency'', JObj [
                    (''type'', JStr ''string''),
                    (''description'',
                       JStr (''fiat currency code, default '' @ [CHR 0x27] @ ''usd'' @
                             [CHR 0x27]))])]),
              (''required'', JArr [JStr ''coin''])])]"

section \<open>A runtime and outside worlds for the examples\<close>

fun issue_text :: "ZodIssue \<Rightarrow> string" where
  "issue_text (invalid_type path e r) =
     (if r = ''undefined'' then ''Required'' else ''Expected '' @ e @ '', received '' @ r)"
| "issue_text (too_small path m) =
     ''String must contain at least '' @ show_nat m @ '' character(s)''"

text \<open>
  An instance of the runtime, to run the handlers on concrete calls. A read on \<^verbatim>\<open>null\<close> or
  \<^verbatim>\<open>undefined\<close> throws with the message of Node.js. The other fields are stand-ins, which
  no example below reaches except the message of a ZodError: it is the texts of the issues
  one after the other, in place of the JSON listing zod builds.
\<close>

definition example_runtime :: Runtime where
  "example_runtime =
     \<lparr>number_to_boolean = (\<lambda>t. True),
      number_to_string = (\<lambda>t. t),
      object_to_string = (\<lambda>v. Inr ''[object Object]''),
      get_other = (\<lambda>v k. Inr Undefined),
      upper_case_other = (\<lambda>s. s),
      nullish_read_message =
        (\<lambda>v k. ''Cannot read properties of '' @
           (if v = Undefined then ''undefined'' else ''null'') @
           '' (reading '' @ [CHR 0x27] @ k @ [CHR 0x27] @ '')''),
      zod_message = (\<lambda>issues. concat (map issue_text issues))\<rparr>"

text \<open>An outside world in which every request is answered with the given body.\<close>

definition answering :: "json \<Rightarrow> Fetch" where
  "answering body = (\<lambda>u. Inr (Response (Inr body)))"

section \<open>Validation and the shape of a call\<close>

lemma z_string_min_Inr:
  "z_string_min m path v = Inr s \<longleftrightarrow> v = Some (JStr s) \<and> m \<le> length s"
  by (cases "(m, path, v)" rule: z_string_min.cases) auto

lemma z_string_optional_default_Inr:
  "z_string_optional_default d path v = Inr s \<longleftrightarrow> v = None \<and> s = d \<or> v = Some (JStr s)"
  by (cases v) (auto simp: z_string_min_Inr)

lemma parse_Inr_iff:
  fixes args :: PriceArgs
  shows "PriceArgsSchema_parse rawArgs = Inr args \<longleftrightarrow>
     (\<exists>ps. rawArgs = Some (JObj ps) \<and>
        map_of ps ''coin'' = Some (JStr (coin args)) \<and> coin args \<noteq> [] \<and>
        (map_of ps ''currency'' = None \<and> currency args = ''usd'' \<or>
         map_of ps ''currency'' = Some (JStr (currency args))))"
proof (cases rawArgs rule: PriceArgsSchema_parse.cases)
  case (1 ps)
  show ?thesis
  proof (cases "z_string_min 1 [''coin''] (map_of ps ''coin'')")
    case (Inl iss)
    then have "\<not> (map_of ps ''coin'' = Some (JStr (coin args)) \<and> coin args \<noteq> [])"
      using z_string_min_Inr [of 1 "[''coin'']" "map_of ps ''coin''" "coin args"]
      by (cases "coin args") auto
    with 1 Inl show ?thesis by auto
  next
    case c: (Inr c)
    then have c': "map_of ps ''coin'' = Some (JStr c)" "c \<noteq> []"
      by (auto simp: z_string_min_Inr)
    show ?thesis
    proof (cases "z_string_optional_default ''usd'' [''currency''] (map_of ps ''currency'')")
      case (Inl iss)
      then have "\<not> (map_of ps ''currency'' = None \<and> currency args = ''usd'' \<or>
         map_of ps ''currency'' = Some (JStr (currency args)))"
        using z_string_optional_default_Inr [of "''usd''" "[''currency'']" "map_of ps ''currency''" "currency args"]
        by auto
      with 1 c Inl show ?thesis by auto
    next
      case (Inr cur)
      then have "map_of ps ''currency'' = None \<and> cur = ''usd'' \<or> map_of ps ''currency'' = Some (JStr cur)"
        by (simp add: z_string_optional_default_Inr)
      with 1 c c' Inr show ?thesis by (cases args) auto
    qed
  qed
qed auto

lemma CallTool_handler_valid:
  assumes "PriceArgsSchema_parse rawArgs = Inr args"
  shows "CallTool_handler rt fetch ''get-crypto-price'' rawArgs =
    ([\<lparr>verb = ''GET'', url = price_url args\<rparr>],
     Inr (case fetch (price_url args) of
            Inl e \<Rightarrow> text_result (''Error: '' @ e)
          | Inr res \<Rightarrow>
              (case json res of
                 Inl e \<Rightarrow> text_result (''Error: '' @ e)
               | Inr data \<Rightarrow>
                   (case price_text rt args data of
                      Inl e \<Rightarrow> text_result (''Error: '' @ e)
                    | Inr result \<Rightarrow> result))))"
  using assms
  by (simp add: CallTool_handler_def try_block_def Let_def split: sum.splits)

lemma CallTool_handler_invalid:
  assumes "PriceArgsSchema_parse rawArgs = Inl issues"
  shows "CallTool_handler rt fetch ''get-crypto-price'' rawArgs =
    ([], Inr (text_result (''Error: '' @ zod_message rt issues)))"
  using assms by (simp add: CallTool_handler_def try_block_def)

lemma parse_Inl_nonempty:
  "PriceArgsSchema_parse rawArgs = Inl issues \<Longrightarrow> issues \<noteq> []"
proof (cases rawArgs rule: PriceArgsSchema_parse.cases)
  case (1 ps)
  assume p: "PriceArgsSchema_parse rawArgs = Inl issues"
  show ?thesis
  proof (cases "z_string_min 1 [''coin''] (map_of ps ''coin'')")
    case (Inl a)
    then have "a \<noteq> []"
      by (cases "(1::nat, [''coin''], map_of ps ''coin'')" rule: z_string_min.cases)
        (auto split: if_splits)
    with p 1 Inl show ?thesis by auto
  next
    case c: (Inr c)
    show ?thesis
    proof (cases "z_string_optional_default ''usd'' [''currency''] (map_of ps ''currency'')")
      case (Inl b)
      then have "b \<noteq> []"
        by (cases "map_of ps ''currency''"; cases "(0::nat, [''currency''], map_of ps ''currency'')" rule: z_string_min.cases)
          (auto split: if_splits)
      with p 1 c Inl show ?thesis by auto
    next
      case (Inr cur)
      with p 1 c show ?thesis by auto
    qed
  qed
qed auto

section \<open>The claims\<close>




theorem inherited_name_reported_as_price:
  "PriceArgsSchema_parse
     (Some (JObj [(''coin'', JStr ''constructor''), (''currency'', JStr ''name'')])) =
     Inr \<lparr>coin = ''constructor'', currency = ''name''\<rparr> \<and>
   map_of ([] :: (string \<times> json) list) ''constructor'' = None \<and>
   CallTool_handler example_runtime (answering (JObj [])) ''get-crypto-price''
     (Some (JObj [(''coin'', JStr ''constructor''), (''currency'', JStr ''name'')])) =
     ([\<lparr>verb = ''GET'',
        url = ''https://api.coingecko.com/api/v3/simple/price?ids=constructor&vs_currencies=name''\<rparr>],
      Inr (text_result ''CONSTRUCTOR = Object NAME'')) \<and>
   snd (CallTool_handler example_runtime (answering (JObj [])) ''get-crypto-price''
     (Some (JObj [(''coin'', JStr ''constructor''), (''currency'', JStr ''name'')]))) \<noteq>
     Inr (text_result ''Could not find price for constructor in name.'')"
  by code_simp

text \<open>
  C2. A call whose tool name is not "get-crypto-price" makes the handler throw an Error
  with the message "Unknown tool: <name>": the handler returns no result, so no text
  response is built. No other call makes the handler throw: whenever it throws, the name
  is not "get-crypto-price" and the message is this one.
\<close>

theorem unknown_tool_throws:
  "(name \<noteq> ''get-crypto-price'' \<longrightarrow>
      CallTool_handler rt fetch name rawArgs = ([], Inl (''Unknown tool: '' @ name))) \<and>
   (\<forall>message. snd (CallTool_handler rt fetch name rawArgs) = Inl message \<longrightarrow>
      name \<noteq> ''get-crypto-price'' \<and> message = ''Unknown tool: '' @ name)"
  by (auto simp: CallTool_handler_def split: prod.splits sum.splits)

theorem unknown_tool_throws_witness:
  "''not-a-real-tool'' \<noteq> ''get-crypto-price'' \<and>
   CallTool_handler example_runtime (answering JNull) ''not-a-real-tool'' None =
     ([], Inl ''Unknown tool: not-a-real-tool'') \<and>
   snd (CallTool_handler example_runtime (answering JNull) ''not-a-real-tool'' None) =
     Inl ''Unknown tool: not-a-real-tool''"
proof -
  have ne: "''not-a-real-tool'' \<noteq> ''get-crypto-price''"
    by simp
  from unknown_tool_throws [of "''not-a-real-tool''" example_runtime "answering JNull" None] ne
  have "CallTool_handler example_runtime (answering JNull) ''not-a-real-tool'' None =
     ([], Inl (''Unknown tool: '' @ ''not-a-real-tool''))"
    by blast
  then show ?thesis
    using ne by simp
qed




text \<open>
  C4. A call of get-crypto-price whose raw arguments fail validation (they are no object,
  or coin is missing, the empty string or not a string, or currency is present and not a
  string) returns normally, with the text "Error: " followed by the message of the
  validation error, which has at least one issue; no request is sent.
\<close>

theorem invalid_arguments:
  assumes "\<forall>ps. rawArgs = Some (JObj ps) \<longrightarrow>
     map_of ps ''coin'' = None \<or>
     map_of ps ''coin'' = Some (JStr '''') \<or>
     (\<exists>v. map_of ps ''coin'' = Some v \<and> (\<forall>s. v \<noteq> JStr s)) \<or>
     (\<exists>v. map_of ps ''currency'' = Some v \<and> (\<forall>s. v \<noteq> JStr s))"
  shows "\<exists>issues. issues \<noteq> [] \<and>
     PriceArgsSchema_parse rawArgs = Inl issues \<and>
     CallTool_handler rt fetch ''get-crypto-price'' rawArgs =
       ([], Inr (text_result (''Error: '' @ zod_message rt issues)))"
proof (cases "PriceArgsSchema_parse rawArgs")
  case (Inl issues)
  then show ?thesis
    using parse_Inl_nonempty [OF Inl] CallTool_handler_invalid [OF Inl] by blast
next
  case (Inr args)
  then obtain ps where ps: "rawArgs = Some (JObj ps)"
    "map_of ps ''coin'' = Some (JStr (coin args))" "coin args \<noteq> []"
    "map_of ps ''currency'' = None \<and> currency args = ''usd'' \<or>
     map_of ps ''currency'' = Some (JStr (currency args))"
    unfolding parse_Inr_iff by blast
  with assms show ?thesis by auto
qed

theorem invalid_arguments_witness:
  "map_of ([] :: (string \<times> json) list) ''coin'' = None \<and>
   PriceArgsSchema_parse (Some (JObj ([] :: (string \<times> json) list))) =
     Inl [invalid_type [''coin''] ''string'' ''undefined''] \<and>
   CallTool_handler example_runtime (answering JNull) ''get-crypto-price'' (Some (JObj [])) =
     ([], Inr (text_result
        (''Error: '' @
         zod_message example_runtime [invalid_type [''coin''] ''string'' ''undefined''])))"
proof -
  have hyp: "\<forall>ps. Some (JObj ([] :: (string \<times> json) list)) = Some (JObj ps) \<longrightarrow>
     map_of ps ''coin'' = None \<or>
     map_of ps ''coin'' = Some (JStr '''') \<or>
     (\<exists>v. map_of ps ''coin'' = Some v \<and> (\<forall>s. v \<noteq> JStr s)) \<or>
     (\<exists>v. map_of ps ''currency'' = Some v \<and> (\<forall>s. v \<noteq> JStr s))"
    by simp
  have parse: "PriceArgsSchema_parse (Some (JObj ([] :: (string \<times> json) list))) =
     Inl [invalid_type [''coin''] ''string'' ''undefined'']"
    by simp
  from invalid_arguments [OF hyp, of example_runtime "answering JNull"] parse
  have "CallTool_handler example_runtime (answering JNull) ''get-crypto-price'' (Some (JObj [])) =
     ([], Inr (text_result
        (''Error: '' @ zod_message example_runtime [invalid_type [''coin''] ''string'' ''undefined''])))"
    by auto
  with parse show ?thesis
    by simp
qed

text \<open>
  C5. When coin is a non-empty string and the arguments have no currency, validation
  succeeds with the currency "usd", and "usd" is what the URL, the lookup and the response
  text are built from (\<open>price_text\<close> does the lookup and builds the text). After any
  successful validation the currency is the string the caller gave, or "usd" when the
  caller gave none.
\<close>

theorem default_currency:
  "(map_of ps ''coin'' = Some (JStr c) \<and> c \<noteq> [] \<and> map_of ps ''currency'' = None \<longrightarrow>
      PriceArgsSchema_parse (Some (JObj ps)) = Inr \<lparr>coin = c, currency = ''usd''\<rparr> \<and>
      CallTool_handler rt fetch ''get-crypto-price'' (Some (JObj ps)) =
        ([\<lparr>verb = ''GET'',
           url = ''https://api.coingecko.com/api/v3/simple/price?ids='' @ c @
                 ''&vs_currencies=usd''\<rparr>],
         Inr (case fetch (''https://api.coingecko.com/api/v3/simple/price?ids='' @ c @
                          ''&vs_currencies=usd'') of
                Inl e \<Rightarrow> text_result (''Error: '' @ e)
              | Inr res \<Rightarrow>
                  (case json res of
                     Inl e \<Rightarrow> text_result (''Error: '' @ e)
                   | Inr data \<Rightarrow>
                       (case price_text rt \<lparr>coin = c, currency = ''usd''\<rparr> data of
                          Inl e \<Rightarrow> text_result (''Error: '' @ e)
                        | Inr result \<Rightarrow> result))))) \<and>
   (PriceArgsSchema_parse rawArgs = Inr args \<longrightarrow>
      (\<exists>qs. rawArgs = Some (JObj qs) \<and>
         (map_of qs ''currency'' = Some (JStr (currency args)) \<or>
          map_of qs ''currency'' = None \<and> currency args = ''usd'')))"
proof (intro conjI impI)
  assume a: "map_of ps ''coin'' = Some (JStr c) \<and> c \<noteq> [] \<and> map_of ps ''currency'' = None"
  then show p: "PriceArgsSchema_parse (Some (JObj ps)) = Inr \<lparr>coin = c, currency = ''usd''\<rparr>"
    by (cases c) auto
  show "CallTool_handler rt fetch ''get-crypto-price'' (Some (JObj ps)) =
        ([\<lparr>verb = ''GET'',
           url = ''https://api.coingecko.com/api/v3/simple/price?ids='' @ c @
                 ''&vs_currencies=usd''\<rparr>],
         Inr (case fetch (''https://api.coingecko.com/api/v3/simple/price?ids='' @ c @
                          ''&vs_currencies=usd'') of
                Inl e \<Rightarrow> text_result (''Error: '' @ e)
              | Inr res \<Rightarrow>
                  (case json res of
                     Inl e \<Rightarrow> text_result (''Error: '' @ e)
                   | Inr data \<Rightarrow>
                       (case price_text rt \<lparr>coin = c, currency = ''usd''\<rparr> data of
                          Inl e \<Rightarrow> text_result (''Error: '' @ e)
                        | Inr result \<Rightarrow> result))))"
    using CallTool_handler_valid [OF p, of rt fetch] by (simp add: price_url_def)
next
  assume "PriceArgsSchema_parse rawArgs = Inr args"
  then show "\<exists>qs. rawArgs = Some (JObj qs) \<and>
         (map_of qs ''currency'' = Some (JStr (currency args)) \<or>
          map_of qs ''currency'' = None \<and> currency args = ''usd'')"
    unfolding parse_Inr_iff by blast
qed

theorem default_currency_witness:
  "map_of [(''coin'', JStr ''ethereum'')] ''coin'' = Some (JStr ''ethereum'') \<and>
   ''ethereum'' \<noteq> [] \<and>
   map_of [(''coin'', JStr ''ethereum'')] ''currency'' = None \<and>
   PriceArgsSchema_parse (Some (JObj [(''coin'', JStr ''ethereum'')])) =
     Inr \<lparr>coin = ''ethereum'', currency = ''usd''\<rparr> \<and>
   CallTool_handler example_runtime
     (answering (JObj [(''ethereum'', JObj [(''usd'', JNum ''3200''), (''eur'', JNum ''2900'')])]))
     ''get-crypto-price'' (Some (JObj [(''coin'', JStr ''ethereum'')])) =
     ([\<lparr>verb = ''GET'',
        url = ''https://api.coingecko.com/api/v3/simple/price?ids=ethereum&vs_currencies=usd''\<rparr>],
      Inr (text_result ''ETHEREUM = 3200 USD''))"
proof -
  let ?ps = "[(''coin'', JStr ''ethereum'')]"
  let ?body = "JObj [(''ethereum'', JObj [(''usd'', JNum ''3200''), (''eur'', JNum ''2900'')])]"
  have hyp: "map_of ?ps ''coin'' = Some (JStr ''ethereum'') \<and> ''ethereum'' \<noteq> [] \<and>
     map_of ?ps ''currency'' = None"
    by simp
  have rendered: "price_text example_runtime \<lparr>coin = ''ethereum'', currency = ''usd''\<rparr> ?body =
     Inr (text_result ''ETHEREUM = 3200 USD'')"
    by code_simp
  from default_currency [of ?ps "''ethereum''" example_runtime "answering ?body"] hyp
  have "PriceArgsSchema_parse (Some (JObj ?ps)) = Inr \<lparr>coin = ''ethereum'', currency = ''usd''\<rparr> \<and>
      CallTool_handler example_runtime (answering ?body) ''get-crypto-price'' (Some (JObj ?ps)) =
        ([\<lparr>verb = ''GET'',
           url = ''https://api.coingecko.com/api/v3/simple/price?ids='' @ ''ethereum'' @
                 ''&vs_currencies=usd''\<rparr>],
         Inr (case answering ?body (''https://api.coingecko.com/api/v3/simple/price?ids='' @
                          ''ethereum'' @ ''&vs_currencies=usd'') of
                Inl e \<Rightarrow> text_result (''Error: '' @ e)
              | Inr res \<Rightarrow>
                  (case json res of
                     Inl e \<Rightarrow> text_result (''Error: '' @ e)
                   | Inr data \<Rightarrow>
                       (case price_text example_runtime \<lparr>coin = ''ethereum'', currency = ''usd''\<rparr> data of
                          Inl e \<Rightarrow> text_result (''Error: '' @ e)
                        | Inr result \<Rightarrow> result))))"
    by blast
  with hyp rendered show ?thesis
    by (simp add: answering_def)
qed

text \<open>
  C6. A tool-listing request, wherever it stands in a session, is answered with exactly
  one descriptor: name "get-crypto-price", description "Fetch current price of a
  cryptocurrency from CoinGecko", and an input schema of type object that requires coin,
  with coin a string described as "CoinGecko coin ID (e.g., bitcoin, ethereum)" and
  currency a string described as "Fiat currency (e.g., usd, eur). Default is 'usd'.".
  The two descriptions are not those of section 6 of the specification, so the answer is
  not the descriptor written there.
\<close>

theorem tool_listing:
  assumes "i < length session"
    and "snd (session ! i) = ListToolsRequest"
  shows "serve rt session ! i =
    ([], Inr (JObj [(''tools'', JArr [
         JObj [(''name'', JStr ''get-crypto-price''),
               (''description'', JStr ''Fetch current price of a cryptocurrency from CoinGecko''),
               (''inputSchema'', JObj [
                  (''type'', JStr ''object''),
                  (''properties'', JObj [
                     (''coin'', JObj [
                        (''type'', JStr ''string''),
                        (''description'', JStr ''CoinGecko coin ID (e.g., bitcoin, ethereum)'')]),
                     (''currency'', JObj [
                        (''type'', JStr ''string''),
                        (''description'',
                           JStr (''Fiat currency (e.g., usd, eur). Default is '' @ [CHR 0x27] @
                                 ''usd'' @ [CHR 0x27] @ ''.''))])]),
                  (''required'', JArr [JStr ''coin''])])]])]))"
proof -
  obtain fetch where "session ! i = (fetch, ListToolsRequest)"
    using assms(2) by (cases "session ! i") simp
  with assms(1) show ?thesis
    by (simp add: serve_def ListTools_handler_def)
qed

theorem tool_listing_witness:
  "(1::nat) < length [(answering JNull, CallToolRequest ''get-crypto-price'' None),
      (\<lambda>u. Inl ''offline'', ListToolsRequest)] \<and>
   snd ([(answering JNull, CallToolRequest ''get-crypto-price'' None),
      (\<lambda>u. Inl ''offline'', ListToolsRequest)] ! 1) = ListToolsRequest \<and>
   serve example_runtime [(answering JNull, CallToolRequest ''get-crypto-price'' None),
      (\<lambda>u. Inl ''offline'', ListToolsRequest)] ! 1 =
    ([], Inr (JObj [(''tools'', JArr [
         JObj [(''name'', JStr ''get-crypto-price''),
               (''description'', JStr ''Fetch current price of a cryptocurrency from CoinGecko''),
               (''inputSchema'', JObj [
                  (''type'', JStr ''object''),
                  (''properties'', JObj [
                     (''coin'', JObj [
                        (''type'', JStr ''string''),
                        (''description'', JStr ''CoinGecko coin ID (e.g., bitcoin, ethereum)'')]),
                     (''currency'', JObj [
                        (''type'', JStr ''string''),
                        (''description'',
                           JStr (''Fiat currency (e.g., usd, eur). Default is '' @ [CHR 0x27] @
                                 ''usd'' @ [CHR 0x27] @ ''.''))])]),
                  (''required'', JArr [JStr ''coin''])])]])]))"
proof -
  let ?session = "[(answering JNull, CallToolRequest ''get-crypto-price'' None),
      (\<lambda>u. Inl ''offline'', ListToolsRequest)]"
  have len: "(1::nat) < length ?session"
    by simp
  have req: "snd (?session ! 1) = ListToolsRequest"
    by simp
  from tool_listing [OF len req, of example_runtime] len req show ?thesis
    by (intro conjI)
qed

theorem tool_listing_not_as_specified:
  "handle_request example_runtime (answering JNull) ListToolsRequest \<noteq>
     ([], Inr (JObj [(''tools'', JArr [spec_tool_descriptor])]))"
  by (simp add: ListTools_handler_def spec_tool_descriptor_def)

text \<open>
  C7. When \<^verbatim>\<open>fetch\<close> throws, or \<^verbatim>\<open>res.json()\<close> throws, a call of get-crypto-price with
  valid arguments returns the text "Error: " followed by the message of the error thrown.
  Whatever the arguments and the outside world, a call of get-crypto-price returns a
  result: the handler does not throw.
\<close>

theorem transport_fault_text:
  "(PriceArgsSchema_parse rawArgs = Inr args \<and>
    (fetch (price_url args) = Inl message \<or>
     (\<exists>res. fetch (price_url args) = Inr res \<and> json res = Inl message)) \<longrightarrow>
      CallTool_handler rt fetch ''get-crypto-price'' rawArgs =
        ([\<lparr>verb = ''GET'', url = price_url args\<rparr>],
         Inr (text_result (''Error: '' @ message)))) \<and>
   (\<exists>result. snd (CallTool_handler rt fetch ''get-crypto-price'' rawArgs) = Inr result)"
proof (intro conjI impI)
  assume "PriceArgsSchema_parse rawArgs = Inr args \<and>
    (fetch (price_url args) = Inl message \<or>
     (\<exists>res. fetch (price_url args) = Inr res \<and> json res = Inl message))"
  then show "CallTool_handler rt fetch ''get-crypto-price'' rawArgs =
        ([\<lparr>verb = ''GET'', url = price_url args\<rparr>],
         Inr (text_result (''Error: '' @ message)))"
    by (auto simp: CallTool_handler_valid)
next
  show "\<exists>result. snd (CallTool_handler rt fetch ''get-crypto-price'' rawArgs) = Inr result"
    by (cases "PriceArgsSchema_parse rawArgs")
      (simp_all add: CallTool_handler_valid CallTool_handler_invalid)
qed

theorem transport_fault_text_witness:
  "PriceArgsSchema_parse (Some (JObj [(''coin'', JStr ''bitcoin'')])) =
     Inr \<lparr>coin = ''bitcoin'', currency = ''usd''\<rparr> \<and>
   CallTool_handler example_runtime (\<lambda>u. Inl ''request failed'')
     ''get-crypto-price'' (Some (JObj [(''coin'', JStr ''bitcoin'')])) =
     ([\<lparr>verb = ''GET'',
        url = ''https://api.coingecko.com/api/v3/simple/price?ids=bitcoin&vs_currencies=usd''\<rparr>],
      Inr (text_result ''Error: request failed'')) \<and>
   CallTool_handler example_runtime
     (\<lambda>u. Inr (Response (Inl ''Unexpected token < in JSON at position 0'')))
     ''get-crypto-price'' (Some (JObj [(''coin'', JStr ''bitcoin'')])) =
     ([\<lparr>verb = ''GET'',
        url = ''https://api.coingecko.com/api/v3/simple/price?ids=bitcoin&vs_currencies=usd''\<rparr>],
      Inr (text_result ''Error: Unexpected token < in JSON at position 0''))"
proof -
  let ?raw = "Some (JObj [(''coin'', JStr ''bitcoin'')])"
  let ?args = "\<lparr>coin = ''bitcoin'', currency = ''usd''\<rparr>"
  let ?down = "\<lambda>u :: string. Inl ''request failed'' :: string + Response"
  let ?html = "\<lambda>u :: string. Inr (Response (Inl ''Unexpected token < in JSON at position 0''))
     :: string + Response"
  have parse: "PriceArgsSchema_parse ?raw = Inr ?args"
    by simp
  have down: "PriceArgsSchema_parse ?raw = Inr ?args \<and>
    (?down (price_url ?args) = Inl ''request failed'' \<or>
     (\<exists>res. ?down (price_url ?args) = Inr res \<and> json res = Inl ''request failed''))"
    by simp
  have html: "PriceArgsSchema_parse ?raw = Inr ?args \<and>
    (?html (price_url ?args) = Inl ''Unexpected token < in JSON at position 0'' \<or>
     (\<exists>res. ?html (price_url ?args) = Inr res \<and>
        json res = Inl ''Unexpected token < in JSON at position 0''))"
    by simp
  from transport_fault_text [of ?raw ?args ?down "''request failed''" example_runtime] down
  have 1: "CallTool_handler example_runtime ?down ''get-crypto-price'' ?raw =
        ([\<lparr>verb = ''GET'', url = price_url ?args\<rparr>],
         Inr (text_result (''Error: '' @ ''request failed'')))"
    by blast
  from transport_fault_text [of ?raw ?args ?html
      "''Unexpected token < in JSON at position 0''" example_runtime] html
  have 2: "CallTool_handler example_runtime ?html ''get-crypto-price'' ?raw =
        ([\<lparr>verb = ''GET'', url = price_url ?args\<rparr>],
         Inr (text_result (''Error: '' @ ''Unexpected token < in JSON at position 0'')))"
    by blast
  from parse 1 2 show ?thesis
    by (simp add: price_url_def)
qed

text \<open>
  C8. A call of get-crypto-price with valid arguments sends exactly one request, a GET, to
  "https://api.coingecko.com/api/v3/simple/price?ids=" followed by the validated coin,
  "&vs_currencies=" and the validated currency, both as they are: the example keeps a
  space and the upper-case letters of its arguments.
\<close>

theorem request_url:
  assumes "PriceArgsSchema_parse rawArgs = Inr args"
  shows "fst (CallTool_handler rt fetch ''get-crypto-price'' rawArgs) =
    [\<lparr>verb = ''GET'',
      url = ''https://api.coingecko.com/api/v3/simple/price?ids='' @ coin args @
            ''&vs_currencies='' @ currency args\<rparr>]"
  using assms by (simp add: CallTool_handler_valid price_url_def)

theorem request_url_witness:
  "PriceArgsSchema_parse
     (Some (JObj [(''coin'', JStr ''Bit coin''), (''currency'', JStr ''EUR'')])) =
     Inr \<lparr>coin = ''Bit coin'', currency = ''EUR''\<rparr> \<and>
   fst (CallTool_handler example_runtime (answering (JObj [])) ''get-crypto-price''
     (Some (JObj [(''coin'', JStr ''Bit coin''), (''currency'', JStr ''EUR'')]))) =
     [\<lparr>verb = ''GET'',
       url = ''https://api.coingecko.com/api/v3/simple/price?ids=Bit coin&vs_currencies=EUR''\<rparr>]"
proof -
  have parse: "PriceArgsSchema_parse
     (Some (JObj [(''coin'', JStr ''Bit coin''), (''currency'', JStr ''EUR'')])) =
     Inr \<lparr>coin = ''Bit coin'', currency = ''EUR''\<rparr>"
    by simp
  show ?thesis
    using request_url [OF parse, of example_runtime "answering (JObj [])"] parse
    by simp
qed

text \<open>
  C9. For a tool name other than "get-crypto-price" the outcome of the handler depends on
  neither the arguments, nor the runtime, nor the outside world: it throws
  "Unknown tool: <name>" and has sent no request.
\<close>

theorem unknown_tool_ignores_arguments:
  assumes "name \<noteq> ''get-crypto-price''"
  shows "CallTool_handler rt fetch name rawArgs = ([], Inl (''Unknown tool: '' @ name)) \<and>
    CallTool_handler rt fetch name rawArgs = CallTool_handler rt' fetch' name rawArgs'"
  using assms by (simp add: CallTool_handler_def)

theorem unknown_tool_ignores_arguments_witness:
  "''get-price'' \<noteq> ''get-crypto-price'' \<and>
   CallTool_handler example_runtime (answering (JObj [])) ''get-price''
     (Some (JObj [(''coin'', JStr ''bitcoin'')])) = ([], Inl ''Unknown tool: get-price'') \<and>
   CallTool_handler example_runtime (answering (JObj [])) ''get-price''
     (Some (JObj [(''coin'', JStr ''bitcoin'')])) =
   CallTool_handler example_runtime (\<lambda>u. Inl ''offline'') ''get-price'' (Some (JNum ''7''))"
proof -
  have ne: "''get-price'' \<noteq> ''get-crypto-price''"
    by simp
  note both = unknown_tool_ignores_arguments [OF ne, of example_runtime "answering (JObj [])"
      "Some (JObj [(''coin'', JStr ''bitcoin'')])" example_runtime "\<lambda>u. Inl ''offline''"
      "Some (JNum ''7'')"]
  from both have thrown: "CallTool_handler example_runtime (answering (JObj [])) ''get-price''
     (Some (JObj [(''coin'', JStr ''bitcoin'')])) = ([], Inl ''Unknown tool: get-price'')"
    by simp
  from both have same: "CallTool_handler example_runtime (answering (JObj [])) ''get-price''
     (Some (JObj [(''coin'', JStr ''bitcoin'')])) =
   CallTool_handler example_runtime (\<lambda>u. Inl ''offline'') ''get-price'' (Some (JNum ''7''))"
    by (rule conjunct2)
  from ne thrown same show ?thesis
    by (intro conjI)
qed

text \<open>
  C10. The two fields are validated differently. With the currency given as the empty
  string, an empty coin is rejected, with the one issue that coin is too small, while a
  non-empty coin passes: the validated currency is the empty string and not "usd", the
  URL ends in "&vs_currencies=", and the lookup is made with the empty key. On a body
  whose entry for the coin is an object, a missing or zero entry for the empty key answers
  "Could not find price for <coin> in .", and a plain number or a non-empty string found
  under the empty key is reported, the text ending in the space before the empty
  currency; whenever the read yields a falsy value the answer is the not-found text.
\<close>

theorem empty_currency_accepted:
  assumes "map_of ps ''coin'' = Some (JStr c)"
    and "map_of ps ''currency'' = Some (JStr '''')"
  shows "(c = [] \<longrightarrow>
      PriceArgsSchema_parse (Some (JObj ps)) = Inl [too_small [''coin''] 1]) \<and>
    (c \<noteq> [] \<longrightarrow>
      PriceArgsSchema_parse (Some (JObj ps)) = Inr \<lparr>coin = c, currency = ''''\<rparr> \<and>
      fst (CallTool_handler rt fetch ''get-crypto-price'' (Some (JObj ps))) =
        [\<lparr>verb = ''GET'',
          url = ''https://api.coingecko.com/api/v3/simple/price?ids='' @ c @
                ''&vs_currencies=''\<rparr>] \<and>
      (\<forall>res entries inner.
         fetch (''https://api.coingecko.com/api/v3/simple/price?ids='' @ c @
                ''&vs_currencies='') = Inr res \<and>
         json res = Inr (JObj entries) \<and> map_of entries c = Some (JObj inner) \<longrightarrow>
         (map_of inner '''' = None \<longrightarrow>
            snd (CallTool_handler rt fetch ''get-crypto-price'' (Some (JObj ps))) =
              Inr (text_result (''Could not find price for '' @ c @ '' in .''))) \<and>
         (\<forall>t. map_of inner '''' = Some (JNum t) \<and> zero_number t \<longrightarrow>
            snd (CallTool_handler rt fetch ''get-crypto-price'' (Some (JObj ps))) =
              Inr (text_result (''Could not find price for '' @ c @ '' in .''))) \<and>
         (\<forall>t. map_of inner '''' = Some (JNum t) \<and> plain_number t \<longrightarrow>
            snd (CallTool_handler rt fetch ''get-crypto-price'' (Some (JObj ps))) =
              Inr (text_result (toUpperCase rt c @ '' = '' @ printed t @ '' ''))) \<and>
         (\<forall>s. map_of inner '''' = Some (JStr s) \<and> s \<noteq> [] \<longrightarrow>
            snd (CallTool_handler rt fetch ''get-crypto-price'' (Some (JObj ps))) =
              Inr (text_result (toUpperCase rt c @ '' = '' @ s @ '' '')))) \<and>
      (\<forall>res data price.
         fetch (''https://api.coingecko.com/api/v3/simple/price?ids='' @ c @
                ''&vs_currencies='') = Inr res \<and>
         json res = Inr data \<and> price_of rt data c '''' = Inr price \<and>
         \<not> ToBoolean rt price \<longrightarrow>
         snd (CallTool_handler rt fetch ''get-crypto-price'' (Some (JObj ps))) =
           Inr (text_result (''Could not find price for '' @ c @ '' in .''))))"
proof (intro conjI impI allI)
  assume "c = []"
  with assms show "PriceArgsSchema_parse (Some (JObj ps)) = Inl [too_small [''coin''] 1]"
    by simp
next
  assume c: "c \<noteq> []"
  with assms show p: "PriceArgsSchema_parse (Some (JObj ps)) = Inr \<lparr>coin = c, currency = ''''\<rparr>"
    by (cases c) auto
  note call = CallTool_handler_def try_block_def Let_def
  have names: "inherited '''' = Undefined"
    by (simp add: inherited_def Object_prototype_names_def)
  have blank: "toUpperCase rt '''' = ''''"
    by (simp add: toUpperCase_def)
  show "fst (CallTool_handler rt fetch ''get-crypto-price'' (Some (JObj ps))) =
        [\<lparr>verb = ''GET'',
          url = ''https://api.coingecko.com/api/v3/simple/price?ids='' @ c @
                ''&vs_currencies=''\<rparr>]"
    by (simp add: p call price_url_def del: PriceArgsSchema_parse.simps split: sum.splits)
  {
    fix res entries inner
    assume w: "fetch (''https://api.coingecko.com/api/v3/simple/price?ids='' @ c @
                ''&vs_currencies='') = Inr res \<and>
         json res = Inr (JObj entries) \<and> map_of entries c = Some (JObj inner)"
    {
      assume "map_of inner '''' = None"
      with w names show "snd (CallTool_handler rt fetch ''get-crypto-price'' (Some (JObj ps))) =
              Inr (text_result (''Could not find price for '' @ c @ '' in .''))"
        by (simp add: p call price_url_def price_text_def price_of_def optional_get_def
            del: PriceArgsSchema_parse.simps)
    }
    {
      fix t
      assume "map_of inner '''' = Some (JNum t) \<and> zero_number t"
      with w show "snd (CallTool_handler rt fetch ''get-crypto-price'' (Some (JObj ps))) =
              Inr (text_result (''Could not find price for '' @ c @ '' in .''))"
        by (auto simp: p call price_url_def price_text_def price_of_def optional_get_def
            zero_number_def Number_toBoolean_def simp del: PriceArgsSchema_parse.simps
            split: option.splits)
    }
    {
      fix t
      assume "map_of inner '''' = Some (JNum t) \<and> plain_number t"
      with w show "snd (CallTool_handler rt fetch ''get-crypto-price'' (Some (JObj ps))) =
              Inr (text_result (toUpperCase rt c @ '' = '' @ printed t @ '' ''))"
        by (auto simp: p call price_url_def price_text_def price_of_def optional_get_def
            plain_number_def Number_toBoolean_def Number_toString_def blank
            simp del: PriceArgsSchema_parse.simps split: option.splits)
    }
    {
      fix s
      assume "map_of inner '''' = Some (JStr s) \<and> s \<noteq> []"
      with w show "snd (CallTool_handler rt fetch ''get-crypto-price'' (Some (JObj ps))) =
              Inr (text_result (toUpperCase rt c @ '' = '' @ s @ '' ''))"
        by (simp add: p call price_url_def price_text_def price_of_def optional_get_def blank
            del: PriceArgsSchema_parse.simps)
    }
  }
  fix res data price
  assume "fetch (''https://api.coingecko.com/api/v3/simple/price?ids='' @ c @
                ''&vs_currencies='') = Inr res \<and>
         json res = Inr data \<and> price_of rt data c '''' = Inr price \<and>
         \<not> ToBoolean rt price"
  then show "snd (CallTool_handler rt fetch ''get-crypto-price'' (Some (JObj ps))) =
           Inr (text_result (''Could not find price for '' @ c @ '' in .''))"
    by (simp add: p call price_url_def price_text_def del: PriceArgsSchema_parse.simps)
qed

theorem empty_currency_accepted_witness:
  "map_of [(''coin'', JStr ''bitcoin''), (''currency'', JStr '''')] ''coin'' =
     Some (JStr ''bitcoin'') \<and>
   map_of [(''coin'', JStr ''bitcoin''), (''currency'', JStr '''')] ''currency'' =
     Some (JStr '''') \<and>
   ''bitcoin'' \<noteq> [] \<and>
   PriceArgsSchema_parse
     (Some (JObj [(''coin'', JStr ''bitcoin''), (''currency'', JStr '''')])) =
     Inr \<lparr>coin = ''bitcoin'', currency = ''''\<rparr> \<and>
   fst (CallTool_handler example_runtime
     (answering (JObj [(''bitcoin'', JObj [(''usd'', JNum ''65000'')])])) ''get-crypto-price''
     (Some (JObj [(''coin'', JStr ''bitcoin''), (''currency'', JStr '''')]))) =
     [\<lparr>verb = ''GET'',
       url = ''https://api.coingecko.com/api/v3/simple/price?ids=bitcoin&vs_currencies=''\<rparr>] \<and>
   map_of [(''usd'', JNum ''65000'')] '''' = None \<and>
   snd (CallTool_handler example_runtime
     (answering (JObj [(''bitcoin'', JObj [(''usd'', JNum ''65000'')])])) ''get-crypto-price''
     (Some (JObj [(''coin'', JStr ''bitcoin''), (''currency'', JStr '''')]))) =
     Inr (text_result ''Could not find price for bitcoin in .'') \<and>
   map_of [(''usd'', JNum ''65000''), ('''', JNum ''5'')] '''' = Some (JNum ''5'') \<and>
   plain_number ''5'' \<and>
   snd (CallTool_handler example_runtime
     (answering (JObj [(''bitcoin'', JObj [(''usd'', JNum ''65000''), ('''', JNum ''5'')])]))
     ''get-crypto-price''
     (Some (JObj [(''coin'', JStr ''bitcoin''), (''currency'', JStr '''')]))) =
     Inr (text_result ''BITCOIN = 5 '')"
proof -
  let ?ps = "[(''coin'', JStr ''bitcoin''), (''currency'', JStr '''')]"
  let ?none = "[(''usd'', JNum ''65000'')]"
  let ?five = "[(''usd'', JNum ''65000''), ('''', JNum ''5'')]"
  let ?u = "''https://api.coingecko.com/api/v3/simple/price?ids='' @ ''bitcoin'' @
    ''&vs_currencies=''"
  have coin: "map_of ?ps ''coin'' = Some (JStr ''bitcoin'')"
    by simp
  have cur: "map_of ?ps ''currency'' = Some (JStr '''')"
    by simp
  have ne: "''bitcoin'' \<noteq> []"
    by simp
  have plain: "plain_number ''5''"
    by code_simp
  have shown: "printed ''5'' = ''5''"
    by code_simp
  have upper: "toUpperCase example_runtime ''bitcoin'' = ''BITCOIN''"
    by (simp add: toUpperCase_def is_ascii_def upper_char_def)
  have world_none: "answering (JObj [(''bitcoin'', JObj ?none)]) ?u =
      Inr (Response (Inr (JObj [(''bitcoin'', JObj ?none)]))) \<and>
    json (Response (Inr (JObj [(''bitcoin'', JObj ?none)]))) = Inr (JObj [(''bitcoin'', JObj ?none)]) \<and>
    map_of [(''bitcoin'', JObj ?none)] ''bitcoin'' = Some (JObj ?none)"
    by (simp add: answering_def)
  have world_five: "answering (JObj [(''bitcoin'', JObj ?five)]) ?u =
      Inr (Response (Inr (JObj [(''bitcoin'', JObj ?five)]))) \<and>
    json (Response (Inr (JObj [(''bitcoin'', JObj ?five)]))) = Inr (JObj [(''bitcoin'', JObj ?five)]) \<and>
    map_of [(''bitcoin'', JObj ?five)] ''bitcoin'' = Some (JObj ?five)"
    by (simp add: answering_def)
  have missing: "map_of ?none '''' = None"
    by simp
  have present: "map_of ?five '''' = Some (JNum ''5'') \<and> plain_number ''5''"
    using plain by simp
  note none = empty_currency_accepted [OF coin cur, of example_runtime
      "answering (JObj [(''bitcoin'', JObj ?none)])"]
  note five = empty_currency_accepted [OF coin cur, of example_runtime
      "answering (JObj [(''bitcoin'', JObj ?five)])"]
  from none ne have parse: "PriceArgsSchema_parse (Some (JObj ?ps)) =
      Inr \<lparr>coin = ''bitcoin'', currency = ''''\<rparr>"
    by blast
  from none ne have sent: "fst (CallTool_handler example_runtime
      (answering (JObj [(''bitcoin'', JObj ?none)])) ''get-crypto-price'' (Some (JObj ?ps))) =
      [\<lparr>verb = ''GET'', url = ?u\<rparr>]"
    by blast
  from none ne world_none missing have not_found: "snd (CallTool_handler example_runtime
      (answering (JObj [(''bitcoin'', JObj ?none)])) ''get-crypto-price'' (Some (JObj ?ps))) =
      Inr (text_result (''Could not find price for '' @ ''bitcoin'' @ '' in .''))"
    by blast
  from five ne world_five present have found: "snd (CallTool_handler example_runtime
      (answering (JObj [(''bitcoin'', JObj ?five)])) ''get-crypto-price'' (Some (JObj ?ps))) =
      Inr (text_result (toUpperCase example_runtime ''bitcoin'' @ '' = '' @ printed ''5'' @ '' ''))"
    by blast
  from coin cur ne parse sent missing not_found present found shown upper show ?thesis
    by simp
qed

end
